theory Spec2Isabelle
  imports Main
begin

section \<open>The store: candidates, feature keys, feature rows\<close>

text \<open>
  A candidate as \<^verbatim>\<open>session.query(candidate_class)\<close> loads it: one per row of the
  table of its candidate class, with its primary key (\<^verbatim>\<open>id\<close>), the class it is an
  instance of (identified by the class's \<^verbatim>\<open>__tablename__\<close>) and its \<^verbatim>\<open>split\<close> tag.
\<close>

record candidate =
  cand_id :: int
  cls :: string
  split :: int

text \<open>
  \<^verbatim>\<open>AnnotationKeyMixin\<close> (annotation.py): columns \<^verbatim>\<open>id\<close> (primary key),
  \<^verbatim>\<open>name\<close> and \<^verbatim>\<open>group\<close> (default 0), unique on (name, group).
\<close>

record feature_key =
  key_id :: int
  name :: string
  group :: int

text \<open>
  \<^verbatim>\<open>AnnotationMixin\<close> (annotation.py) with the \<^verbatim>\<open>values\<close> array that
  \<^verbatim>\<open>Label\<close> adds (label.py): \<^verbatim>\<open>candidate_id\<close> is the primary key and a
  foreign key to \<^verbatim>\<open>candidate.id\<close>; \<^verbatim>\<open>keys\<close> and \<^verbatim>\<open>values\<close> (here \<open>values'\<close>)
  are two parallel arrays. There is no \<^verbatim>\<open>id\<close> column. Values are integers, as in
  \<^verbatim>\<open>Label.values\<close>; 0 is the value the worker drops.
\<close>

record feature =
  candidate_id :: int
  keys :: "string list"
  values' :: "int list"

text \<open>
  The session's view of the database: each table is the list of its rows. \<open>key_seq\<close> is
  the sequence that numbers new key rows.
\<close>

record store =
  candidates :: "candidate list"
  feature_keys :: "feature_key list"
  features :: "feature list"
  key_seq :: int

text \<open>What a worker yields: a new \<^verbatim>\<open>FeatureKey(name=...)\<close> or a new \<^verbatim>\<open>Feature(...)\<close>.\<close>

datatype emitted = FeatureKey string | Feature feature

text \<open>The exception the worker can raise.\<close>

datatype error = AttributeError

section \<open>The worker: \<^verbatim>\<open>FAnnotatorUDF.apply\<close>\<close>

text \<open>
  \<^verbatim>\<open>session.query(FeatureKey).filter(FeatureKey.name == key_name).first()\<close> is
  truthy exactly when some key row has that name.
\<close>

definition key_exists :: "store \<Rightarrow> string \<Rightarrow> bool" where
  "key_exists st key_name = (find (\<lambda>k. name k = key_name) (feature_keys st) \<noteq> None)"

text \<open>\<^verbatim>\<open>_get_FeatureKey(key)\<close>: a new \<^verbatim>\<open>FeatureKey\<close> object with that name.\<close>

definition get_FeatureKey :: "string \<Rightarrow> emitted" where
  "get_FeatureKey key = FeatureKey key"

text \<open>
  The loop over \<^verbatim>\<open>get_all_feats(candidate)\<close> (lines 133 to 145). The worker is a
  generator: each yielded object goes to whoever consumes it before the loop
  continues, so the consumer \<open>add\<close> (the runner's handling of a yielded object) is a
  parameter, and the session state, the objects yielded so far and the two
  accumulators are threaded through.
\<close>

fun feats_loop ::
  "(emitted \<Rightarrow> store \<Rightarrow> store) \<Rightarrow> (int \<times> string \<times> int) list \<Rightarrow>
   store \<Rightarrow> emitted list \<Rightarrow> string list \<Rightarrow> int list \<Rightarrow>
   store \<times> emitted list \<times> string list \<times> int list" where
  "feats_loop add [] st out ks vs = (st, out, ks, vs)"
| "feats_loop add ((cid, key_name, feat) # rest) st out ks vs =
     (if feat = 0 then feats_loop add rest st out ks vs
      else if \<not> key_exists st key_name
        then feats_loop add rest (add (get_FeatureKey key_name) st)
               (out @ [get_FeatureKey key_name]) (ks @ [key_name]) (vs @ [feat])
        else feats_loop add rest st out (ks @ [key_name]) (vs @ [feat]))"

text \<open>
  The whole generator (lines 122 to 161): the loop, then the row is assembled. With
  \<open>clear\<close> the row is yielded. Without \<open>clear\<close> line 153 evaluates
  \<^verbatim>\<open>select([Feature.id])\<close>: the feature table has no \<^verbatim>\<open>id\<close> column (its primary key
  is \<^verbatim>\<open>candidate_id\<close>), so the attribute lookup raises \<^verbatim>\<open>AttributeError\<close> before the
  existence query is built and before the row is yielded; the keys the loop yielded
  have gone to the consumer by then. The result is the session state and the objects
  yielded, in order, on the right when the generator ends normally and on the left,
  with the exception, when it raises. \<open>get_all_feats\<close> (fonduer.features.features) is
  the extraction function, a parameter.
\<close>

definition FAnnotatorUDF_apply ::
  "(emitted \<Rightarrow> store \<Rightarrow> store) \<Rightarrow> (candidate \<Rightarrow> (int \<times> string \<times> int) list) \<Rightarrow>
   store \<Rightarrow> candidate \<Rightarrow> bool \<Rightarrow>
   (error \<times> store \<times> emitted list) + (store \<times> emitted list)" where
  "FAnnotatorUDF_apply add get_all_feats st cand clear =
     (case feats_loop add (get_all_feats cand) st [] [] [] of
        (st1, out, ks, vs) \<Rightarrow>
          let row = \<lparr>candidate_id = cand_id cand, keys = ks, values' = vs\<rparr>
          in if \<not> clear then Inl (AttributeError, st1, out)
             else Inr (add (Feature row) st1, out @ [Feature row]))"

text \<open>The objects a worker call yielded, whether it ended normally or raised.\<close>

definition yielded ::
  "(error \<times> store \<times> emitted list) + (store \<times> emitted list) \<Rightarrow> emitted list" where
  "yielded r = (case r of Inl (e, st, out) \<Rightarrow> out | Inr (st, out) \<Rightarrow> out)"

section \<open>The operator: \<^verbatim>\<open>FAnnotator\<close>\<close>

text \<open>
  A candidate class is represented by its \<^verbatim>\<open>__tablename__\<close>;
  \<^verbatim>\<open>session.query(candidate_class)\<close> selects the candidates whose \<open>cls\<close> is that
  class.
\<close>

type_synonym candidate_class = string

definition tablename :: "candidate_class \<Rightarrow> string" where
  "tablename x = x"

text \<open>
  \<^verbatim>\<open>query.delete(synchronize_session="fetch")\<close> on a query over a candidate class:
  the selected rows of the class's own table are deleted, so those candidates are no
  longer loaded. The rows of table \<^verbatim>\<open>candidate\<close>, which the feature rows' foreign key
  references (annotation.py, line 84), are not touched, so no delete cascades and
  every feature row stays.
\<close>

definition delete_candidates :: "(candidate \<Rightarrow> bool) \<Rightarrow> store \<Rightarrow> store" where
  "delete_candidates P st = st\<lparr>candidates := filter (\<lambda>c. \<not> P c) (candidates st)\<rparr>"

text \<open>
  One iteration of the loop of \<^verbatim>\<open>FAnnotator.clear\<close> (lines 72 to 91), for one
  candidate class: the query is over the candidate class; without
  \<open>replace_key_set\<close> it is filtered to the ids of the candidates (of any class)
  whose split is the given one; the query's rows are deleted; with
  \<open>replace_key_set\<close> every \<^verbatim>\<open>FeatureKey\<close> row is deleted too.
\<close>

definition clear_step :: "int \<Rightarrow> bool \<Rightarrow> candidate_class \<Rightarrow> store \<Rightarrow> store" where
  "clear_step spl replace_key_set candidate_class st =
     (let st1 =
        (if \<not> replace_key_set
         then (let sub_query = map cand_id (filter (\<lambda>c. split c = spl) (candidates st))
               in delete_candidates
                    (\<lambda>c. cls c = candidate_class \<and> cand_id c \<in> set sub_query) st)
         else delete_candidates (\<lambda>c. cls c = candidate_class) st)
      in if replace_key_set then st1\<lparr>feature_keys := []\<rparr> else st1)"

text \<open>
  \<^verbatim>\<open>FAnnotator.clear(session, split, replace_key_set, update_keys, update_values)\<close>:
  the loop over \<^verbatim>\<open>self.candidate_classes\<close>.
\<close>

definition FAnnotator_clear ::
  "candidate_class list \<Rightarrow> store \<Rightarrow> int \<Rightarrow> bool \<Rightarrow> bool \<Rightarrow> bool \<Rightarrow> store" where
  "FAnnotator_clear candidate_classes st spl replace_key_set update_keys update_values =
     fold (clear_step spl replace_key_set) candidate_classes st"

text \<open>\<^verbatim>\<open>FAnnotator.clear_all\<close>: \<^verbatim>\<open>session.query(Feature).delete()\<close>.\<close>

definition FAnnotator_clear_all :: "candidate_class list \<Rightarrow> store \<Rightarrow> store" where
  "FAnnotator_clear_all candidate_classes st = st\<lparr>features := []\<rparr>"

text \<open>
  \<^verbatim>\<open>FAnnotator.load_matrices\<close> (lines 98 to 102): for each candidate class it yields
  the class's table name. The store and the split are not read.
\<close>

definition FAnnotator_load_matrices ::
  "candidate_class list \<Rightarrow> store \<Rightarrow> int \<Rightarrow> string list" where
  "FAnnotator_load_matrices candidate_classes st spl = map tablename candidate_classes"

subsection \<open>The runner that consumes the worker's output\<close>

text \<open>
  Modelled from the spec: \<^verbatim>\<open>UDFRunner\<close> (fonduer.utils.udf), whose \<^verbatim>\<open>apply\<close>
  \<^verbatim>\<open>FAnnotator.apply\<close> calls through \<^verbatim>\<open>super()\<close>, is not among the source files. The
  spec (4.1, 4.2, 4.4) has a single serialized consumer that applies each
  key-creation request through \<open>getOrCreate\<close> and each annotation row through
  \<open>upsert\<close>.

  \<open>getOrCreate(name, group)\<close>: the id of the key with that name and group, created
  if there is none.
\<close>

definition getOrCreate :: "string \<Rightarrow> int \<Rightarrow> store \<Rightarrow> store \<times> int" where
  "getOrCreate n g st =
     (case find (\<lambda>k. name k = n \<and> group k = g) (feature_keys st) of
        Some k \<Rightarrow> (st, key_id k)
      | None \<Rightarrow>
          (st\<lparr>feature_keys := feature_keys st @ [\<lparr>key_id = key_seq st, name = n, group = g\<rparr>],
              key_seq := key_seq st + 1\<rparr>,
           key_seq st))"

text \<open>Modelled from the spec: the two modes of \<open>upsert\<close> (4.2).\<close>

datatype mode = Replace | AppendIfAbsent

text \<open>
  Modelled from the spec: \<open>upsert(candidateID, keys, values, mode)\<close> (4.2). \<open>Replace\<close>
  always writes or overwrites the candidate's row. \<open>AppendIfAbsent\<close> is a no-op when
  an identical row is stored; when the candidate has a different row, no row is
  created and none is updated (section 9: silently stale); otherwise the row is
  written.
\<close>

definition upsert :: "int \<Rightarrow> string list \<Rightarrow> int list \<Rightarrow> mode \<Rightarrow> store \<Rightarrow> store" where
  "upsert cid ks vs m st =
     (let row = \<lparr>candidate_id = cid, keys = ks, values' = vs\<rparr>
      in case m of
           Replace \<Rightarrow>
             st\<lparr>features := filter (\<lambda>f. candidate_id f \<noteq> cid) (features st) @ [row]\<rparr>
         | AppendIfAbsent \<Rightarrow>
             if row \<in> set (features st) then st
             else if cid \<in> set (map candidate_id (features st)) then st
             else st\<lparr>features := features st @ [row]\<rparr>)"

text \<open>
  Modelled from the spec: the consumer of one yielded object (4.4, Draining). A run
  with \<open>clear\<close> writes in \<open>Replace\<close> mode, a run without in \<open>AppendIfAbsent\<close> mode
  (sections 3 and 9). A new key has the default group 0.
\<close>

definition drain :: "bool \<Rightarrow> emitted \<Rightarrow> store \<Rightarrow> store" where
  "drain clear e st =
     (case e of
        FeatureKey key_name \<Rightarrow> fst (getOrCreate key_name 0 st)
      | Feature row \<Rightarrow>
          upsert (candidate_id row) (keys row) (values' row)
            (if clear then Replace else AppendIfAbsent) st)"

text \<open>
  Modelled from the spec: the worker runs on each candidate in turn, one consumer
  draining what it yields (4.4). An exception of the worker ends the run and is passed
  on to the caller.
\<close>

fun run_workers ::
  "(candidate \<Rightarrow> (int \<times> string \<times> int) list) \<Rightarrow> bool \<Rightarrow> candidate list \<Rightarrow> store \<Rightarrow>
   error + store" where
  "run_workers get_all_feats clear [] st = Inr st"
| "run_workers get_all_feats clear (x # xs) st =
     (case FAnnotatorUDF_apply (drain clear) get_all_feats st x clear of
        Inl (e, st1, out) \<Rightarrow> Inl e
      | Inr (st1, out) \<Rightarrow> run_workers get_all_feats clear xs st1)"

text \<open>
  Modelled from the spec: \<^verbatim>\<open>UDFRunner.apply(candidates, split=split, clear=clear)\<close>
  (4.4). With \<open>clear\<close> it first calls the operator's \<open>clear\<close>; the only keyword
  arguments that reach it are \<open>split\<close> and \<open>clear\<close>, so \<open>clear\<close> runs with the defaults
  its signature declares (\<^verbatim>\<open>replace_key_set=True\<close>, \<^verbatim>\<open>update_keys=False\<close>,
  \<^verbatim>\<open>update_values=True\<close>). Then the workers run.
\<close>

definition UDFRunner_apply ::
  "(candidate \<Rightarrow> (int \<times> string \<times> int) list) \<Rightarrow> candidate_class list \<Rightarrow>
   candidate list \<Rightarrow> int \<Rightarrow> bool \<Rightarrow> store \<Rightarrow> error + store" where
  "UDFRunner_apply get_all_feats candidate_classes xs spl clear st =
     (let st0 = (if clear then FAnnotator_clear candidate_classes st spl True False True
                 else st)
      in run_workers get_all_feats clear xs st0)"

text \<open>
  The loop of \<^verbatim>\<open>FAnnotator.apply\<close> (lines 37 to 58): for each candidate class, the
  candidates of that class in the split are loaded; a class with none is skipped;
  otherwise the runner is called on them. An exception leaves the loop.
\<close>

fun apply_loop ::
  "(candidate \<Rightarrow> (int \<times> string \<times> int) list) \<Rightarrow> candidate_class list \<Rightarrow> int \<Rightarrow> bool \<Rightarrow>
   candidate_class list \<Rightarrow> store \<Rightarrow> error + store" where
  "apply_loop get_all_feats candidate_classes spl clear [] st = Inr st"
| "apply_loop get_all_feats candidate_classes spl clear (candidate_class # rest) st =
     (let cands = filter (\<lambda>c. cls c = candidate_class \<and> split c = spl) (candidates st);
          cids_count = length cands
      in if cids_count = 0
         then apply_loop get_all_feats candidate_classes spl clear rest st
         else (case UDFRunner_apply get_all_feats candidate_classes cands spl clear st of
                 Inl e \<Rightarrow> Inl e
               | Inr st1 \<Rightarrow> apply_loop get_all_feats candidate_classes spl clear rest st1))"

text \<open>
  \<^verbatim>\<open>FAnnotator.apply(split, replace_key_set, update_keys, update_values, **kwargs)\<close>
  (lines 24 to 60), with \<open>clear\<close> the keyword argument passed on to the runner. It
  returns what \<^verbatim>\<open>load_matrices\<close> yields; the store after the call is returned with
  it.
\<close>

definition FAnnotator_apply ::
  "(candidate \<Rightarrow> (int \<times> string \<times> int) list) \<Rightarrow> candidate_class list \<Rightarrow> store \<Rightarrow>
   int \<Rightarrow> bool \<Rightarrow> bool \<Rightarrow> bool \<Rightarrow> bool \<Rightarrow> error + (store \<times> string list)" where
  "FAnnotator_apply get_all_feats candidate_classes st spl replace_key_set update_keys
     update_values clear =
     (case apply_loop get_all_feats candidate_classes spl clear candidate_classes st of
        Inl e \<Rightarrow> Inl e
      | Inr st1 \<Rightarrow> Inr (st1, FAnnotator_load_matrices candidate_classes st1 spl))"

section \<open>Auxiliary notions for the statements\<close>

text \<open>
  In the specification's words (4.2, 8): the (key, value) pairs an extraction function
  emits for a candidate, and those that remain after the zero-valued ones are filtered
  out, in emission order.
\<close>

definition emitted_pairs :: "(int \<times> string \<times> int) list \<Rightarrow> (string \<times> int) list" where
  "emitted_pairs fs = map (\<lambda>(cid, key_name, feat). (key_name, feat)) fs"

definition nonzero_pairs :: "(int \<times> string \<times> int) list \<Rightarrow> (string \<times> int) list" where
  "nonzero_pairs fs = filter (\<lambda>(key_name, feat). feat \<noteq> 0) (emitted_pairs fs)"

section \<open>Concrete stores and extraction functions\<close>

text \<open>
  The scenario of the specification's section 8: candidates 1 and 2 of one class in
  split 0; the function emits (a, 1), (b, 0) for the first and (a, 2) for the second.
\<close>

definition ex_c1 :: candidate where
  "ex_c1 = \<lparr>cand_id = 1, cls = ''part'', split = 0\<rparr>"

definition ex_c2 :: candidate where
  "ex_c2 = \<lparr>cand_id = 2, cls = ''part'', split = 0\<rparr>"

definition ex_F :: "candidate \<Rightarrow> (int \<times> string \<times> int) list" where
  "ex_F c = (if cand_id c = 1 then [(1, ''a'', 1), (1, ''b'', 0)] else [(cand_id c, ''a'', 2)])"

definition ex_store :: store where
  "ex_store = \<lparr>candidates = [ex_c1, ex_c2], feature_keys = [], features = [], key_seq = 1\<rparr>"

text \<open>The same store holding the key and the rows the scenario expects.\<close>

definition ex_store_applied :: store where
  "ex_store_applied =
     \<lparr>candidates = [ex_c1, ex_c2],
      feature_keys = [\<lparr>key_id = 1, name = ''a'', group = 0\<rparr>],
      features =
        [\<lparr>candidate_id = 1, keys = [''a''], values' = [1]\<rparr>,
         \<lparr>candidate_id = 2, keys = [''a''], values' = [2]\<rparr>],
      key_seq = 2\<rparr>"

text \<open>
  A store with candidates of two classes and two splits, each with a feature row, and
  one key.
\<close>

definition ex_mixed :: store where
  "ex_mixed =
     \<lparr>candidates =
        [\<lparr>cand_id = 1, cls = ''part'', split = 0\<rparr>,
         \<lparr>cand_id = 2, cls = ''part'', split = 1\<rparr>,
         \<lparr>cand_id = 3, cls = ''other'', split = 0\<rparr>],
      feature_keys = [\<lparr>key_id = 1, name = ''a'', group = 0\<rparr>],
      features =
        [\<lparr>candidate_id = 1, keys = [''a''], values' = [1]\<rparr>,
         \<lparr>candidate_id = 2, keys = [''a''], values' = [2]\<rparr>,
         \<lparr>candidate_id = 3, keys = [''a''], values' = [4]\<rparr>],
      key_seq = 2\<rparr>"

text \<open>An extraction function that emits one key twice, with value 0 and with value 5.\<close>

definition ex_dup_feats :: "candidate \<Rightarrow> (int \<times> string \<times> int) list" where
  "ex_dup_feats c = [(cand_id c, ''k'', 0), (cand_id c, ''k'', 5)]"

text \<open>An extraction function all of whose outputs are zero.\<close>

definition ex_zero_feats :: "candidate \<Rightarrow> (int \<times> string \<times> int) list" where
  "ex_zero_feats c = [(cand_id c, ''b'', 0)]"

text \<open>An extraction function with three non-zero outputs around a zero one.\<close>

definition ex_three_feats :: "candidate \<Rightarrow> (int \<times> string \<times> int) list" where
  "ex_three_feats c =
     [(cand_id c, ''a'', 1), (cand_id c, ''b'', 0), (cand_id c, ''c'', 2), (cand_id c, ''d'', 3)]"

section \<open>The worker's row\<close>

declare get_FeatureKey_def [simp]

lemma feats_loop_keys:
  "feats_loop add fs st out ks vs = (st1, out1, ks1, vs1) \<Longrightarrow>
   ks1 = ks @ map fst (nonzero_pairs fs)"
  by (induction add fs st out ks vs rule: feats_loop.induct)
     (auto simp: nonzero_pairs_def emitted_pairs_def split: if_splits)

lemma feats_loop_values:
  "feats_loop add fs st out ks vs = (st1, out1, ks1, vs1) \<Longrightarrow>
   vs1 = vs @ map snd (nonzero_pairs fs)"
  by (induction add fs st out ks vs rule: feats_loop.induct)
     (auto simp: nonzero_pairs_def emitted_pairs_def split: if_splits)

lemma feats_loop_out:
  "feats_loop add fs st out ks vs = (st1, out1, ks1, vs1) \<Longrightarrow>
   \<exists>more. out1 = out @ more \<and> (\<forall>e \<in> set more. \<exists>k. e = FeatureKey k)"
  by (induction add fs st out ks vs rule: feats_loop.induct)
     (fastforce split: if_splits)+

lemma apply_emitted_row:
  assumes "Feature row \<in> set (yielded (FAnnotatorUDF_apply add get_all_feats st cand clear))"
  shows "row = \<lparr>candidate_id = cand_id cand,
                keys = map fst (nonzero_pairs (get_all_feats cand)),
                values' = map snd (nonzero_pairs (get_all_feats cand))\<rparr>"
proof -
  obtain st1 out ks vs where
    L: "feats_loop add (get_all_feats cand) st [] [] [] = (st1, out, ks, vs)"
    by (metis prod_cases4)
  from feats_loop_keys [OF L] have K: "ks = map fst (nonzero_pairs (get_all_feats cand))"
    by simp
  from feats_loop_values [OF L] have V: "vs = map snd (nonzero_pairs (get_all_feats cand))"
    by simp
  from feats_loop_out [OF L] have O: "\<forall>e \<in> set out. \<exists>k. e = FeatureKey k"
    by auto
  from assms L O have "row = \<lparr>candidate_id = cand_id cand, keys = ks, values' = vs\<rparr>"
    by (auto simp: FAnnotatorUDF_apply_def yielded_def Let_def split: if_splits)
  with K V show ?thesis by simp
qed

lemma ex_three_worker:
  "FAnnotatorUDF_apply (drain True) ex_three_feats ex_store ex_c1 True =
     Inr (\<lparr>candidates = [ex_c1, ex_c2],
           feature_keys =
             [\<lparr>key_id = 1, name = ''a'', group = 0\<rparr>,
              \<lparr>key_id = 2, name = ''c'', group = 0\<rparr>,
              \<lparr>key_id = 3, name = ''d'', group = 0\<rparr>],
           features =
             [\<lparr>candidate_id = 1, keys = [''a'', ''c'', ''d''], values' = [1, 2, 3]\<rparr>],
           key_seq = 4\<rparr>,
          [FeatureKey ''a'', FeatureKey ''c'', FeatureKey ''d'',
           Feature \<lparr>candidate_id = 1, keys = [''a'', ''c'', ''d''], values' = [1, 2, 3]\<rparr>])"
  by (simp add: FAnnotatorUDF_apply_def ex_three_feats_def ex_store_def ex_c1_def
      key_exists_def drain_def getOrCreate_def upsert_def Let_def)

lemma ex_store_worker_c1:
  "FAnnotatorUDF_apply (drain True) ex_F ex_store ex_c1 True =
     Inr (\<lparr>candidates = [ex_c1, ex_c2],
           feature_keys = [\<lparr>key_id = 1, name = ''a'', group = 0\<rparr>],
           features = [\<lparr>candidate_id = 1, keys = [''a''], values' = [1]\<rparr>],
           key_seq = 2\<rparr>,
          [FeatureKey ''a'', Feature \<lparr>candidate_id = 1, keys = [''a''], values' = [1]\<rparr>])"
  by (simp add: FAnnotatorUDF_apply_def ex_F_def ex_store_def ex_c1_def key_exists_def
      drain_def getOrCreate_def upsert_def Let_def)

text \<open>
  Claim C8. Every annotation row the worker emits has \<open>keys\<close> and \<open>values\<close> of equal
  length, and for every index \<open>i\<close> the pair (keys[i], values[i]) is the \<open>i\<close>-th of
  the pairs the extraction function emitted for that candidate once the zero-valued
  ones are dropped: the row is those pairs, in emission order.
\<close>

theorem emitted_row_pairing:
  assumes "Feature row \<in> set (yielded (FAnnotatorUDF_apply add get_all_feats st cand clear))"
  shows "length (keys row) = length (values' row) \<and>
         zip (keys row) (values' row) = nonzero_pairs (get_all_feats cand) \<and>
         (\<forall>i < length (keys row).
            (keys row ! i, values' row ! i) = nonzero_pairs (get_all_feats cand) ! i)"
proof -
  from apply_emitted_row [OF assms]
  have K: "keys row = map fst (nonzero_pairs (get_all_feats cand))"
    and V: "values' row = map snd (nonzero_pairs (get_all_feats cand))"
    by simp_all
  have Z: "zip (keys row) (values' row) = nonzero_pairs (get_all_feats cand)"
    by (simp add: K V zip_map_fst_snd)
  show ?thesis
    by (simp add: Z) (simp add: K V)
qed

theorem emitted_row_pairing_witness:
  "Feature \<lparr>candidate_id = 1, keys = [''a'', ''c'', ''d''], values' = [1, 2, 3]\<rparr>
     \<in> set (yielded (FAnnotatorUDF_apply (drain True) ex_three_feats ex_store ex_c1 True)) \<and>
   length [''a'', ''c'', ''d''] = length [1, 2, 3 :: int] \<and>
   zip [''a'', ''c'', ''d''] [1, 2, 3] = nonzero_pairs (ex_three_feats ex_c1) \<and>
   (''a'', 1) = nonzero_pairs (ex_three_feats ex_c1) ! 0 \<and>
   (''c'', 2) = nonzero_pairs (ex_three_feats ex_c1) ! 1 \<and>
   (''d'', 3) = nonzero_pairs (ex_three_feats ex_c1) ! 2"
proof -
  have h: "Feature \<lparr>candidate_id = 1, keys = [''a'', ''c'', ''d''], values' = [1, 2, 3]\<rparr>
     \<in> set (yielded (FAnnotatorUDF_apply (drain True) ex_three_feats ex_store ex_c1 True))"
    by (simp add: ex_three_worker yielded_def)
  from emitted_row_pairing [OF h] h show ?thesis
    by (simp add: ex_three_feats_def ex_c1_def nonzero_pairs_def emitted_pairs_def)
qed

text \<open>
  Claim C7, as the code has it. A pair with value 0 is never stored: in every row the
  worker emits no value slot holds 0, no (key, 0) pair is among the stored pairs, and
  a key all of whose emitted values are 0 is not in the row's keys. (A key that is
  also emitted with a non-zero value is stored with that value.)
\<close>

theorem zero_pairs_not_stored:
  assumes "Feature row \<in> set (yielded (FAnnotatorUDF_apply add get_all_feats st cand clear))"
  shows "0 \<notin> set (values' row) \<and>
         (\<forall>k. (k, 0) \<notin> set (zip (keys row) (values' row))) \<and>
         (\<forall>k. (\<forall>cid v. (cid, k, v) \<in> set (get_all_feats cand) \<longrightarrow> v = 0) \<longrightarrow>
              k \<notin> set (keys row))"
proof -
  from apply_emitted_row [OF assms]
  have K: "keys row = map fst (nonzero_pairs (get_all_feats cand))"
    and V: "values' row = map snd (nonzero_pairs (get_all_feats cand))"
    by simp_all
  have Z: "zip (keys row) (values' row) = nonzero_pairs (get_all_feats cand)"
    by (simp add: K V zip_map_fst_snd)
  have 1: "0 \<notin> set (values' row)"
    by (auto simp: V nonzero_pairs_def)
  have 2: "\<forall>k. (k, 0) \<notin> set (zip (keys row) (values' row))"
    by (auto simp: Z nonzero_pairs_def)
  have 3: "\<forall>k. (\<forall>cid v. (cid, k, v) \<in> set (get_all_feats cand) \<longrightarrow> v = 0) \<longrightarrow>
              k \<notin> set (keys row)"
    by (fastforce simp: K nonzero_pairs_def emitted_pairs_def)
  from 1 2 3 show ?thesis by blast
qed

theorem zero_pairs_not_stored_witness:
  "Feature \<lparr>candidate_id = 1, keys = [''a''], values' = [1]\<rparr>
     \<in> set (yielded (FAnnotatorUDF_apply (drain True) ex_F ex_store ex_c1 True)) \<and>
   (1, ''b'', 0) \<in> set (ex_F ex_c1) \<and>
   (0::int) \<notin> set [1] \<and> (''b'', 0) \<notin> set (zip [''a''] [1::int]) \<and> ''b'' \<notin> set [''a'']"
proof -
  have h: "Feature \<lparr>candidate_id = 1, keys = [''a''], values' = [1]\<rparr>
     \<in> set (yielded (FAnnotatorUDF_apply (drain True) ex_F ex_store ex_c1 True))"
    by (simp add: ex_store_worker_c1 yielded_def)
  from zero_pairs_not_stored [OF h] h show ?thesis
    by (simp add: ex_F_def ex_c1_def)
qed

text \<open>
  Claim C7 as stated fails where an extraction function emits a key both with value 0
  and with a non-zero value: in a run with \<open>clear\<close> the pair (k, 0) is an output, and
  the keys of the row the worker yields, and of the row then stored, contain k.
\<close>

theorem zero_key_stored_counterexample:
  "(1, ''k'', 0) \<in> set (ex_dup_feats ex_c1) \<and>
   FAnnotatorUDF_apply (drain True) ex_dup_feats ex_store ex_c1 True =
     Inr (\<lparr>candidates = [ex_c1, ex_c2],
           feature_keys = [\<lparr>key_id = 1, name = ''k'', group = 0\<rparr>],
           features = [\<lparr>candidate_id = 1, keys = [''k''], values' = [5]\<rparr>],
           key_seq = 2\<rparr>,
          [FeatureKey ''k'', Feature \<lparr>candidate_id = 1, keys = [''k''], values' = [5]\<rparr>]) \<and>
   ''k'' \<in> set (keys \<lparr>candidate_id = 1, keys = [''k''], values' = [5]\<rparr>)"
  by (simp add: FAnnotatorUDF_apply_def ex_dup_feats_def ex_store_def ex_c1_def key_exists_def
      drain_def getOrCreate_def upsert_def Let_def)

text \<open>
  Claim C9 at a concrete candidate all of whose outputs are zero. In a run with
  \<open>clear\<close> the worker yields the row with empty \<open>keys\<close> and empty \<open>values\<close>. On a first
  run without \<open>clear\<close> it raises at the existence check: no row is yielded and none is
  stored.
\<close>

theorem empty_row_first_run_raises:
  "ex_zero_feats ex_c1 = [(1, ''b'', 0)] \<and>
   FAnnotatorUDF_apply (drain True) ex_zero_feats ex_store ex_c1 True =
     Inr (\<lparr>candidates = [ex_c1, ex_c2], feature_keys = [],
           features = [\<lparr>candidate_id = 1, keys = [], values' = []\<rparr>], key_seq = 1\<rparr>,
          [Feature \<lparr>candidate_id = 1, keys = [], values' = []\<rparr>]) \<and>
   FAnnotatorUDF_apply (drain False) ex_zero_feats ex_store ex_c1 False =
     Inl (AttributeError, ex_store, [])"
  by (simp add: FAnnotatorUDF_apply_def ex_zero_feats_def ex_store_def ex_c1_def
      drain_def upsert_def Let_def)

section \<open>Clearing\<close>

lemma clear_step_features: "features (clear_step spl rks x st) = features st"
  by (simp add: clear_step_def delete_candidates_def Let_def)

lemma clear_keeps_features:
  "features (FAnnotator_clear candidate_classes st spl rks update_keys update_values) =
   features st"
  unfolding FAnnotator_clear_def
  by (induction candidate_classes arbitrary: st) (simp_all add: clear_step_features)

text \<open>
  Claim C1 at a concrete store: \<open>clear(split=0, replace_key_set=false)\<close> on an operator
  for the class \<open>part\<close> deletes no feature row; the row of candidate 1, a candidate of
  that class in split 0, is still stored.
\<close>

theorem clear_split_keeps_rows:
  "features (FAnnotator_clear [''part''] ex_mixed 0 False False True) =
     [\<lparr>candidate_id = 1, keys = [''a''], values' = [1]\<rparr>,
      \<lparr>candidate_id = 2, keys = [''a''], values' = [2]\<rparr>,
      \<lparr>candidate_id = 3, keys = [''a''], values' = [4]\<rparr>]"
  by (simp add: clear_keeps_features) (simp add: ex_mixed_def)

text \<open>
  Claim C2 at a concrete store: \<open>clear(split=0, replace_key_set=false)\<close> on an operator
  for the class \<open>part\<close> deletes the candidate of that class in split 0. The query of
  \<open>clear\<close> is over the candidate class, not over the feature table.
\<close>

theorem clear_deletes_candidates:
  "candidates ex_mixed =
     [\<lparr>cand_id = 1, cls = ''part'', split = 0\<rparr>,
      \<lparr>cand_id = 2, cls = ''part'', split = 1\<rparr>,
      \<lparr>cand_id = 3, cls = ''other'', split = 0\<rparr>] \<and>
   candidates (FAnnotator_clear [''part''] ex_mixed 0 False False True) =
     [\<lparr>cand_id = 2, cls = ''part'', split = 1\<rparr>,
      \<lparr>cand_id = 3, cls = ''other'', split = 0\<rparr>]"
  by (simp add: FAnnotator_clear_def clear_step_def delete_candidates_def ex_mixed_def Let_def)

text \<open>
  Claim C3 at a concrete store: \<open>clear(split=1, replace_key_set=true)\<close> on an operator
  for the class \<open>part\<close> deletes every \<open>FeatureKey\<close> row and no feature row: the three
  rows stored before the clear remain.
\<close>

theorem clear_replace_key_set_keeps_rows:
  "features (FAnnotator_clear [''part''] ex_mixed 1 True False True) =
     [\<lparr>candidate_id = 1, keys = [''a''], values' = [1]\<rparr>,
      \<lparr>candidate_id = 2, keys = [''a''], values' = [2]\<rparr>,
      \<lparr>candidate_id = 3, keys = [''a''], values' = [4]\<rparr>] \<and>
   feature_keys (FAnnotator_clear [''part''] ex_mixed 1 True False True) = []"
  by (simp add: FAnnotator_clear_def clear_step_def delete_candidates_def ex_mixed_def Let_def)

section \<open>Applying\<close>

lemma worker_without_clear_raises:
  "\<exists>st1 out. FAnnotatorUDF_apply add get_all_feats st cand False =
     Inl (AttributeError, st1, out)"
  by (simp add: FAnnotatorUDF_apply_def Let_def split: prod.splits)

text \<open>
  Claim C4 at the specification's end-to-end scenario: the first \<open>apply(split=0)\<close>
  without \<open>clear\<close> does not complete. The worker yields the key \<open>a\<close> for candidate 1
  and then raises at the existence check, and \<open>apply\<close> ends with that exception, so
  there is no first run to repeat.
\<close>

theorem apply_without_clear_raises:
  "FAnnotatorUDF_apply (drain False) ex_F ex_store ex_c1 False =
     Inl (AttributeError,
          \<lparr>candidates = [ex_c1, ex_c2],
           feature_keys = [\<lparr>key_id = 1, name = ''a'', group = 0\<rparr>],
           features = [], key_seq = 2\<rparr>,
          [FeatureKey ''a'']) \<and>
   FAnnotator_apply ex_F [''part''] ex_store 0 True False True False = Inl AttributeError"
  by (simp add: FAnnotator_apply_def UDFRunner_apply_def FAnnotatorUDF_apply_def ex_F_def
      ex_store_def ex_c1_def ex_c2_def key_exists_def drain_def getOrCreate_def Let_def)

text \<open>
  Claim C6 at the specification's end-to-end scenario. On the store that holds the
  key \<open>a\<close> and the rows ([a], [1]) and ([a], [2]), \<open>load_matrices(split=0)\<close> yields the
  list of the candidate classes' table names, not a matrix of 2 rows and 1 column with
  the values 1 and 2.
\<close>

theorem load_matrices_yields_tablenames:
  "features ex_store_applied =
     [\<lparr>candidate_id = 1, keys = [''a''], values' = [1]\<rparr>,
      \<lparr>candidate_id = 2, keys = [''a''], values' = [2]\<rparr>] \<and>
   feature_keys ex_store_applied = [\<lparr>key_id = 1, name = ''a'', group = 0\<rparr>] \<and>
   FAnnotator_load_matrices [''part''] ex_store_applied 0 = [''part'']"
  by (simp add: ex_store_applied_def FAnnotator_load_matrices_def tablename_def)

text \<open>
  Claim C10. What \<open>FAnnotator.apply\<close> returns and the store it leaves do not depend
  on \<open>replace_key_set\<close>, \<open>update_keys\<close> and \<open>update_values\<close>: two calls that differ
  only in these three arguments, from the same store, end in the same store and
  return the same value.
\<close>

theorem apply_ignores_key_arguments:
  "FAnnotator_apply get_all_feats candidate_classes st spl replace_key_set update_keys
     update_values clear =
   FAnnotator_apply get_all_feats candidate_classes st spl replace_key_set' update_keys'
     update_values' clear"
  by (simp add: FAnnotator_apply_def)

end
